theory Spec2Isabelle
  imports Main "HOL-Library.Sublist" "HOL-Library.Word"
begin

unbundle bit_operations_syntax

section \<open>Python strings\<close>

text \<open>
  Strings are lists of characters with code points below 256; commit identifiers,
  coordinates and annotations are ASCII. The functions below are the \<^verbatim>\<open>str\<close>
  methods that \<^verbatim>\<open>configmanager.py\<close> calls.
\<close>

text \<open>\<^verbatim>\<open>str.isspace\<close> on one character: the ASCII and Latin-1 white space.\<close>

definition isspace :: "char \<Rightarrow> bool" where
  "isspace c = ((of_char c :: nat) \<in> {9, 10, 11, 12, 13, 28, 29, 30, 31, 32, 133, 160})"

definition lower_char :: "char \<Rightarrow> char" where
  "lower_char c =
     (case map_of (zip ''ABCDEFGHIJKLMNOPQRSTUVWXYZ'' ''abcdefghijklmnopqrstuvwxyz'') c of
        None \<Rightarrow> c
      | Some d \<Rightarrow> d)"

text \<open>\<^verbatim>\<open>s.lower()\<close>\<close>

definition lower :: "string \<Rightarrow> string" where
  "lower s = map lower_char s"

text \<open>\<^verbatim>\<open>s.strip()\<close>\<close>

definition strip :: "string \<Rightarrow> string" where
  "strip s = rev (dropWhile isspace (rev (dropWhile isspace s)))"

text \<open>
  \<^verbatim>\<open>s.split(sep, maxsplit)\<close> for a non-empty separator: \<open>k\<close> is the number of
  splits still allowed (\<open>None\<close>: no limit), \<open>cur\<close> the piece being read.
\<close>

function py_split_sep :: "string \<Rightarrow> nat option \<Rightarrow> string \<Rightarrow> string \<Rightarrow> string list" where
  "py_split_sep sep k cur [] = [cur]"
| "py_split_sep sep k cur (c # cs) =
     (if sep \<noteq> [] \<and> k \<noteq> Some 0 \<and> prefix sep (c # cs)
      then cur # py_split_sep sep (map_option (\<lambda>n. n - 1) k) [] (drop (length sep) (c # cs))
      else py_split_sep sep k (cur @ [c]) cs)"
  by pat_completeness auto
termination
  by (relation "measure (\<lambda>(sep, k, cur, s). length s)") (auto simp: neq_Nil_conv)

text \<open>\<^verbatim>\<open>s.split()\<close>: the maximal runs of characters that are not white space.\<close>

fun py_split_ws :: "string \<Rightarrow> string \<Rightarrow> string list" where
  "py_split_ws w [] = (if w = [] then [] else [w])"
| "py_split_ws w (c # cs) =
     (if isspace c then (if w = [] then py_split_ws [] cs else w # py_split_ws [] cs)
      else py_split_ws (w @ [c]) cs)"

definition py_split :: "string \<Rightarrow> string list" where
  "py_split s = py_split_ws [] s"

datatype exn = IndexError | Failure string

text \<open>\<^verbatim>\<open>xs[i]\<close> for \<open>i \<ge> 0\<close>: out of range raises.\<close>

definition py_nth :: "'a list \<Rightarrow> nat \<Rightarrow> exn + 'a" where
  "py_nth xs i = (if i < length xs then Inr (xs ! i) else Inl IndexError)"

text \<open>Truthiness of a value that is \<^verbatim>\<open>None\<close> or a string.\<close>

definition truthy :: "string option \<Rightarrow> bool" where
  "truthy x = (case x of None \<Rightarrow> False | Some s \<Rightarrow> s \<noteq> [])"

section \<open>The fingerprint store\<close>

text \<open>
  \<^verbatim>\<open>config.json\<close> is a list of one-key objects
  \<^verbatim>\<open>{coordinate: {"_comment": annotation, "assets": {name: digest-or-null}}}\<close>.
  \<open>comment = None\<close> is an object without the \<^verbatim>\<open>_comment\<close> key.
\<close>

record entry =
  coordinate :: string
  comment :: "string option"
  assets :: "(string \<times> string option) list"

text \<open>\<^verbatim>\<open>entry[repo].get('_comment', '')\<close>\<close>

definition get_comment :: "entry \<Rightarrow> string" where
  "get_comment e = (case comment e of None \<Rightarrow> [] | Some c \<Rightarrow> c)"

text \<open>
  Line 484 of \<^verbatim>\<open>on_button_pressed\<close>:
  \<^verbatim>\<open>[e for e in self.config if repo_name not in e] + [{repo_name: {...}}]\<close>
\<close>

definition add_entry ::
  "entry list \<Rightarrow> string \<Rightarrow> string \<Rightarrow> (string \<times> string option) list \<Rightarrow> entry list" where
  "add_entry config repo_name cmt hashes =
     filter (\<lambda>e. coordinate e \<noteq> repo_name) config
       @ [\<lparr>coordinate = repo_name, comment = Some cmt, assets = hashes\<rparr>]"

text \<open>
  The \<^verbatim>\<open>submit_add\<close> branch of \<^verbatim>\<open>on_button_pressed\<close>: \<open>parsed\<close> is the result of
  \<^verbatim>\<open>parse_repo_input\<close>, \<open>fetched\<close> the outcome of \<^verbatim>\<open>fetch_latest_release_assets\<close>,
  whose exception leaves the handler. The result is the new \<^verbatim>\<open>self.config\<close>.
\<close>

definition submit_add ::
  "entry list \<Rightarrow> string option \<Rightarrow> (string \<Rightarrow> exn + (string \<times> string option) list \<times> string)
     \<Rightarrow> exn + entry list" where
  "submit_add config parsed fetched =
     (case parsed of
        None \<Rightarrow> Inr config
      | Some repo_name \<Rightarrow>
          (case fetched repo_name of
             Inl e \<Rightarrow> Inl e
           | Inr (hashes, cmt) \<Rightarrow> Inr (add_entry config repo_name cmt hashes)))"

section \<open>The reconciliation pass\<close>

text \<open>
  The primary parse of \<^verbatim>\<open>_check_updates_worker\<close> (line 698):
  \<^verbatim>\<open>old_comment.split(":", 1)[1].strip().split(" @")[0].strip() if ":" in old_comment else None\<close>
\<close>

definition primary_parse :: "string \<Rightarrow> exn + string option" where
  "primary_parse old_comment =
     (if CHR '':'' \<in> set old_comment then
        (case py_nth (py_split_sep '':'' (Some 1) [] old_comment) 1 of
           Inl e \<Rightarrow> Inl e
         | Inr t \<Rightarrow>
             (case py_nth (py_split_sep '' @'' None [] (strip t)) 0 of
                Inl e \<Rightarrow> Inl e
              | Inr u \<Rightarrow> Inr (Some (strip u))))
      else Inr None)"

text \<open>The fallback of lines 701-702: \<^verbatim>\<open>parts[3] if len(parts) > 3 else None\<close>.\<close>

definition fallback_parse :: "string \<Rightarrow> string option" where
  "fallback_parse old_comment =
     (let parts = py_split old_comment in if length parts > 3 then Some (parts ! 3) else None)"

text \<open>The \<^verbatim>\<open>try\<close>/\<^verbatim>\<open>except\<close> of lines 696-702.\<close>

definition extract_old_sha :: "string \<Rightarrow> string option" where
  "extract_old_sha old_comment =
     (case primary_parse old_comment of Inr r \<Rightarrow> r | Inl e \<Rightarrow> fallback_parse old_comment)"

text \<open>
  Line 574 of \<^verbatim>\<open>_update_repo_worker\<close>, which is outside that worker's \<^verbatim>\<open>try\<close>:
  \<^verbatim>\<open>old_comment.split()[3] if old_comment else None\<close>
\<close>

definition update_worker_old_sha :: "string \<Rightarrow> exn + string option" where
  "update_worker_old_sha old_comment =
     (if old_comment \<noteq> [] then
        (case py_nth (py_split old_comment) 3 of Inl e \<Rightarrow> Inl e | Inr t \<Rightarrow> Inr (Some t))
      else Inr None)"

text \<open>The dictionary that \<^verbatim>\<open>_fetch_latest_commit_info\<close> returns; a missing field is \<^verbatim>\<open>''\<close>.\<close>

record commit_info =
  ci_sha :: string
  ci_date :: string
  ci_message :: string

text \<open>One value of \<^verbatim>\<open>self.outdated_repos\<close>.\<close>

record drift_record =
  old_sha :: string
  new_sha :: string
  commit_date :: string
  message :: string
  index :: nat

text \<open>\<^verbatim>\<open>d[k] = v\<close> on a dictionary kept in insertion order.\<close>

fun dict_set :: "'k \<Rightarrow> 'v \<Rightarrow> ('k \<times> 'v) list \<Rightarrow> ('k \<times> 'v) list" where
  "dict_set k v [] = [(k, v)]"
| "dict_set k v (p # ps) = (if fst p = k then (k, v) # ps else p # dict_set k v ps)"

text \<open>
  The comparison of lines 709-724: \<open>True\<close> is the branch that records the item as
  outdated, \<open>False\<close> either of the two branches that count it as up to date.
\<close>

definition sha_changed :: "string option \<Rightarrow> string option \<Rightarrow> bool" where
  "sha_changed old new =
     (if truthy old \<and> truthy new \<and> old \<noteq> new then
        (if lower (the old) \<noteq> lower (the new) \<and> \<not> prefix (the old) (the new)
            \<and> \<not> prefix (the new) (the old)
         then True else False)
      else False)"

record check_state =
  outdated_repos :: "(string \<times> drift_record) list"
  outdated_count :: nat
  update_count :: nat
  error_count :: nat

text \<open>
  The body of the loop of \<^verbatim>\<open>_check_updates_worker\<close> for the entry at index \<open>i\<close>.
  \<open>fetch\<close> is \<^verbatim>\<open>_fetch_latest_commit_info\<close>: \<open>Inl\<close> when a request or the decoding of
  its answer raises, which the \<^verbatim>\<open>except Exception\<close> of line 725 counts.
\<close>

definition check_entry ::
  "(string \<Rightarrow> exn + commit_info) \<Rightarrow> nat \<Rightarrow> entry \<Rightarrow> check_state \<Rightarrow> check_state" where
  "check_entry fetch i e st =
     (let repo = coordinate e;
          old_comment = get_comment e;
          old = extract_old_sha old_comment
      in case fetch repo of
           Inl ex \<Rightarrow> st\<lparr>error_count := error_count st + 1\<rparr>
         | Inr info \<Rightarrow>
             (if sha_changed old (Some (ci_sha info)) then
                st\<lparr>outdated_repos :=
                     dict_set repo
                       \<lparr>old_sha = the old, new_sha = ci_sha info, commit_date = ci_date info,
                        message = ci_message info, index = i\<rparr>
                       (outdated_repos st),
                   outdated_count := outdated_count st + 1\<rparr>
              else st\<lparr>update_count := update_count st + 1\<rparr>))"

fun check_loop ::
  "(string \<Rightarrow> exn + commit_info) \<Rightarrow> nat \<Rightarrow> entry list \<Rightarrow> check_state \<Rightarrow> check_state" where
  "check_loop fetch i [] st = st"
| "check_loop fetch i (e # es) st = check_loop fetch (Suc i) es (check_entry fetch i e st)"

definition check_updates_worker ::
  "(string \<Rightarrow> exn + commit_info) \<Rightarrow> entry list \<Rightarrow> check_state" where
  "check_updates_worker fetch config =
     check_loop fetch 0 config
       \<lparr>outdated_repos = [], outdated_count = 0, update_count = 0, error_count = 0\<rparr>"

text \<open>
  The rule of the specification, in its words: two identifiers are the same when they are
  equal up to case or one is a prefix of the other.
\<close>

definition is_same_commit :: "string \<Rightarrow> string \<Rightarrow> bool" where
  "is_same_commit a b = (lower a = lower b \<or> prefix a b \<or> prefix b a)"

text \<open>
  The condition under which \<^const>\<open>check_entry\<close> records an entry as outdated, read off its
  body: the fetch returns and the comparison of the extracted old identifier with the new
  one takes its outdated branch.
\<close>

definition counted_outdated :: "(string \<Rightarrow> exn + commit_info) \<Rightarrow> entry \<Rightarrow> bool" where
  "counted_outdated fetch e =
     (case (extract_old_sha (get_comment e), fetch (coordinate e)) of
        (Some a, Inr info) \<Rightarrow> a \<noteq> [] \<and> ci_sha info \<noteq> [] \<and> \<not> is_same_commit a (ci_sha info)
      | _ \<Rightarrow> False)"

section \<open>Tracked items and their stored annotation\<close>

text \<open>
  Line 88 of \<^verbatim>\<open>fetch_latest_release_assets\<close>, the only writer of annotations:
  \<^verbatim>\<open>f"Last commit on {default_branch}: {sha} @ {date}"\<close>
\<close>

definition render_comment :: "string \<Rightarrow> string \<Rightarrow> string \<Rightarrow> string" where
  "render_comment default_branch sha date =
     ''Last commit on '' @ default_branch @ '': '' @ sha @ '' @ '' @ date"

text \<open>
  A tracked item of the data model, before it is written to the store: its coordinate, the
  branch, identifier and timestamp last observed (\<open>None\<close> when nothing was recorded), and
  its asset digests. \<open>entry_of\<close> is the store entry that holds it.
\<close>

record tracked_item =
  item_coordinate :: string
  item_commit :: "(string \<times> string \<times> string) option"
  item_assets :: "(string \<times> string option) list"

definition entry_of :: "tracked_item \<Rightarrow> entry" where
  "entry_of it =
     \<lparr>coordinate = item_coordinate it,
      comment = map_option (\<lambda>(branch, sha, date). render_comment branch sha date) (item_commit it),
      assets = item_assets it\<rparr>"

text \<open>The identifier stored for an item: the one that was embedded, not one parsed back.\<close>

definition stored_sha :: "tracked_item \<Rightarrow> string option" where
  "stored_sha it = map_option (\<lambda>(branch, sha, date). sha) (item_commit it)"

text \<open>
  An item is genuinely drifted, in the words of the specification: the stored and the new
  identifier are both present and are not the same commit.
\<close>

definition item_drifted :: "(string \<Rightarrow> exn + commit_info) \<Rightarrow> tracked_item \<Rightarrow> bool" where
  "item_drifted fetch it =
     (case (stored_sha it, fetch (item_coordinate it)) of
        (Some a, Inr info) \<Rightarrow> a \<noteq> [] \<and> ci_sha info \<noteq> [] \<and> \<not> is_same_commit a (ci_sha info)
      | _ \<Rightarrow> False)"

text \<open>
  The canonical format: a branch name holds no colon (git forbids it), and a commit
  identifier is not empty and holds no white space.
\<close>

definition canonical_item :: "tracked_item \<Rightarrow> bool" where
  "canonical_item it =
     (case item_commit it of
        None \<Rightarrow> True
      | Some (branch, sha, date) \<Rightarrow>
          CHR '':'' \<notin> set branch \<and> sha \<noteq> [] \<and> (\<forall>c\<in>set sha. \<not> isspace c))"

section \<open>Properties of the reconciliation pass\<close>

lemma sha_changed_iff:
  "sha_changed (Some a) (Some b) = (\<not> is_same_commit a b)"
  by (auto simp: sha_changed_def is_same_commit_def truthy_def)

lemma sha_changed_None [simp]: "sha_changed None n = False"
  by (simp add: sha_changed_def truthy_def)

lemma not_same_commit_nonempty:
  "\<not> is_same_commit a b \<Longrightarrow> a \<noteq> [] \<and> b \<noteq> []"
  by (auto simp: is_same_commit_def)

lemma sha_changed_drifted:
  "fetch (coordinate e) = Inr info \<Longrightarrow>
   counted_outdated fetch e = sha_changed (extract_old_sha (get_comment e)) (Some (ci_sha info))"
proof (cases "extract_old_sha (get_comment e)")
  case None
  assume "fetch (coordinate e) = Inr info"
  with None show ?thesis by (simp add: counted_outdated_def)
next
  case (Some a)
  assume "fetch (coordinate e) = Inr info"
  with Some show ?thesis
    using not_same_commit_nonempty [of a "ci_sha info"]
    by (auto simp: counted_outdated_def sha_changed_iff)
qed

lemma counted_outdated_Inl:
  "fetch (coordinate e) = Inl ex \<Longrightarrow> \<not> counted_outdated fetch e"
  by (simp add: counted_outdated_def split: option.splits)

lemma check_entry_sum:
  "update_count (check_entry fetch i e st) + outdated_count (check_entry fetch i e st)
     + error_count (check_entry fetch i e st)
   = Suc (update_count st + outdated_count st + error_count st)"
  by (simp add: check_entry_def Let_def split: sum.splits)

lemma check_entry_outdated:
  "outdated_count (check_entry fetch i e st)
   = outdated_count st + (if counted_outdated fetch e then 1 else 0)"
  by (auto simp: check_entry_def Let_def sha_changed_drifted counted_outdated_Inl split: sum.splits)

lemma keys_dict_set:
  "map fst (dict_set k v ps) = (if k \<in> fst ` set ps then map fst ps else map fst ps @ [k])"
  by (induction ps) auto

lemma check_entry_keys:
  "map fst (outdated_repos (check_entry fetch i e st))
   = (if counted_outdated fetch e \<and> coordinate e \<notin> fst ` set (outdated_repos st)
      then map fst (outdated_repos st) @ [coordinate e] else map fst (outdated_repos st))"
  by (auto simp: check_entry_def Let_def sha_changed_drifted counted_outdated_Inl keys_dict_set
           split: sum.splits)

lemma check_loop_sum:
  "update_count (check_loop fetch i es st) + outdated_count (check_loop fetch i es st)
     + error_count (check_loop fetch i es st)
   = length es + (update_count st + outdated_count st + error_count st)"
  by (induction es arbitrary: i st) (simp_all add: check_entry_sum)

lemma check_loop_outdated:
  "outdated_count (check_loop fetch i es st)
   = outdated_count st + length (filter (counted_outdated fetch) es)"
  by (induction es arbitrary: i st) (simp_all add: check_entry_outdated)

lemma keys_dict_set_subset:
  "fst ` set (dict_set k v ps) \<subseteq> insert k (fst ` set ps)"
  by (induction ps) auto

lemma check_entry_keys_subset:
  "fst ` set (outdated_repos (check_entry fetch i e st))
   \<subseteq> insert (coordinate e) (fst ` set (outdated_repos st))"
proof (cases "fetch (coordinate e)")
  case (Inl ex)
  then show ?thesis by (auto simp: check_entry_def Let_def)
next
  case (Inr info)
  show ?thesis
  proof (cases "sha_changed (extract_old_sha (get_comment e)) (Some (ci_sha info))")
    case True
    with Inr show ?thesis
      using keys_dict_set_subset by (simp add: check_entry_def Let_def)
  next
    case False
    with Inr show ?thesis by (auto simp: check_entry_def Let_def)
  qed
qed

lemma check_loop_keys:
  "distinct (map coordinate es) \<Longrightarrow> coordinate ` set es \<inter> fst ` set (outdated_repos st) = {} \<Longrightarrow>
   map fst (outdated_repos (check_loop fetch i es st))
   = map fst (outdated_repos st) @ map coordinate (filter (counted_outdated fetch) es)"
proof (induction es arbitrary: i st)
  case Nil
  then show ?case by simp
next
  case (Cons e es)
  let ?st = "check_entry fetch i e st"
  note keys = check_entry_keys_subset [of fetch i e st]
  have fresh: "coordinate e \<notin> coordinate ` set es"
    using Cons.prems(1) by auto
  have old: "coordinate ` set es \<inter> fst ` set (outdated_repos st) = {}"
    using Cons.prems(2) by auto
  have disj: "coordinate ` set es \<inter> fst ` set (outdated_repos ?st) = {}"
  proof -
    have "coordinate ` set es \<inter> insert (coordinate e) (fst ` set (outdated_repos st)) = {}"
      using fresh old by simp
    with keys show ?thesis
      by (meson disjoint_iff subsetD)
  qed
  have dist: "distinct (map coordinate es)"
    using Cons.prems(1) by simp
  have IH: "map fst (outdated_repos (check_loop fetch (Suc i) es ?st))
        = map fst (outdated_repos ?st) @ map coordinate (filter (counted_outdated fetch) es)"
    by (rule Cons.IH [OF dist disj])
  have notin: "coordinate e \<notin> fst ` set (outdated_repos st)"
    using Cons.prems(2) by auto
  have step: "map fst (outdated_repos ?st)
        = map fst (outdated_repos st) @ (if counted_outdated fetch e then [coordinate e] else [])"
    using notin by (simp add: check_entry_keys)
  have "map fst (outdated_repos (check_loop fetch i (e # es) st))
        = map fst (outdated_repos (check_loop fetch (Suc i) es ?st))"
    by simp
  also note IH
  also note step
  finally show ?case by simp
qed

text \<open>
  The scenario of the specification: \<^verbatim>\<open>foo/bar\<close> is stored at \<^verbatim>\<open>aaaa111\<close> and upstream
  reports \<^verbatim>\<open>bbbb222\<close>.
\<close>

lemma extract_old_sha_example:
  "extract_old_sha ''Last commit on main: aaaa111 @ 2024-01-01'' = Some ''aaaa111''"
  by (simp add: extract_old_sha_def primary_parse_def py_nth_def strip_def isspace_def)

lemma scenario_foo_bar_outdated:
  "check_updates_worker
     (\<lambda>_. Inr \<lparr>ci_sha = ''bbbb222'', ci_date = ''2024-02-02'', ci_message = ''m''\<rparr>)
     [\<lparr>coordinate = ''foo/bar'', comment = Some ''Last commit on main: aaaa111 @ 2024-01-01'',
       assets = []\<rparr>]
   = \<lparr>outdated_repos =
        [(''foo/bar'', \<lparr>old_sha = ''aaaa111'', new_sha = ''bbbb222'', commit_date = ''2024-02-02'',
                        message = ''m'', index = 0\<rparr>)],
      outdated_count = 1, update_count = 0, error_count = 0\<rparr>"
  by (simp add: check_updates_worker_def check_entry_def get_comment_def extract_old_sha_example
        sha_changed_def truthy_def lower_def lower_char_def)

text \<open>
  C1, as the specification states it, fails: an entry whose annotation holds no \<^verbatim>\<open>:\<close> has
  no old identifier, the fetch succeeds, and the pass counts the entry as up to date, with
  no error.
\<close>

theorem missing_old_sha_not_error:
  "error_count
     (check_updates_worker
        (\<lambda>_. Inr \<lparr>ci_sha = ''bbbb222'', ci_date = ''2024-02-02'', ci_message = ''m''\<rparr>)
        [\<lparr>coordinate = ''foo/bar'', comment = Some ''aaaa111'', assets = []\<rparr>]) = 0
   \<and> update_count
     (check_updates_worker
        (\<lambda>_. Inr \<lparr>ci_sha = ''bbbb222'', ci_date = ''2024-02-02'', ci_message = ''m''\<rparr>)
        [\<lparr>coordinate = ''foo/bar'', comment = Some ''aaaa111'', assets = []\<rparr>]) = 1"
  by (simp add: check_updates_worker_def check_entry_def get_comment_def extract_old_sha_def
        primary_parse_def sha_changed_def truthy_def)

text \<open>
  C1, amended. When the old identifier is missing (\<^verbatim>\<open>None\<close> or empty), or the fetch does not
  return a non-empty identifier, the entry is never recorded as outdated: it is counted as
  an error when the fetch raised and as up to date when the fetch returned, and the pass
  goes on with the remaining entries from that state.
\<close>

theorem missing_sha_outcome:
  assumes "\<not> truthy (extract_old_sha (get_comment e))
           \<or> (\<forall>info. fetch (coordinate e) = Inr info \<longrightarrow> ci_sha info = [])"
  shows "check_loop fetch i (e # es) st
         = check_loop fetch (Suc i) es
             (case fetch (coordinate e) of
                Inl ex \<Rightarrow> st\<lparr>error_count := error_count st + 1\<rparr>
              | Inr info \<Rightarrow> st\<lparr>update_count := update_count st + 1\<rparr>)"
proof -
  have "check_entry fetch i e st
        = (case fetch (coordinate e) of
             Inl ex \<Rightarrow> st\<lparr>error_count := error_count st + 1\<rparr>
           | Inr info \<Rightarrow> st\<lparr>update_count := update_count st + 1\<rparr>)"
    using assms by (auto simp: check_entry_def Let_def sha_changed_def truthy_def split: sum.splits)
  then show ?thesis by simp
qed

theorem missing_sha_outcome_witness:
  "check_loop (\<lambda>_. Inr \<lparr>ci_sha = [], ci_date = [], ci_message = []\<rparr>) 0
     [\<lparr>coordinate = ''foo/bar'', comment = Some ''Last commit on main: aaaa111 @ 2024-01-01'',
       assets = []\<rparr>]
     \<lparr>outdated_repos = [], outdated_count = 0, update_count = 0, error_count = 0\<rparr>
   = \<lparr>outdated_repos = [], outdated_count = 0, update_count = 1, error_count = 0\<rparr>"
  using missing_sha_outcome
    [of "\<lparr>coordinate = ''foo/bar'',
          comment = Some ''Last commit on main: aaaa111 @ 2024-01-01'', assets = []\<rparr>"
        "\<lambda>_. Inr \<lparr>ci_sha = [], ci_date = [], ci_message = []\<rparr>" 0 "[]"
        "\<lparr>outdated_repos = [], outdated_count = 0, update_count = 0, error_count = 0\<rparr>"]
  by simp

text \<open>
  C2. The comparison of lines 709-724 takes its outdated branch exactly when the two
  identifiers are not the same commit, where the same means equal up to case or one a
  prefix of the other; the three examples of the specification come out as stated, on the
  rule and on the code.
\<close>

theorem drift_check_same_commit:
  "sha_changed (Some a) (Some b) = (\<not> is_same_commit a b)
   \<and> is_same_commit ''abc1234'' ''ABC1234''
   \<and> is_same_commit ''abc1234'' ''abc1234567''
   \<and> \<not> is_same_commit ''abc1234'' ''def5678''
   \<and> \<not> sha_changed (Some ''abc1234'') (Some ''ABC1234'')
   \<and> \<not> sha_changed (Some ''abc1234'') (Some ''abc1234567'')
   \<and> sha_changed (Some ''abc1234'') (Some ''def5678'')"
proof -
  have 1: "is_same_commit ''abc1234'' ''ABC1234''"
    by (simp add: is_same_commit_def lower_def lower_char_def)
  have 2: "is_same_commit ''abc1234'' ''abc1234567''"
    by (simp add: is_same_commit_def lower_def lower_char_def)
  have 3: "\<not> is_same_commit ''abc1234'' ''def5678''"
    by (simp add: is_same_commit_def lower_def lower_char_def)
  from 1 2 3 show ?thesis
    by (simp add: sha_changed_iff)
qed

lemma check_updates_totals:
  "update_count (check_updates_worker fetch config)
     + outdated_count (check_updates_worker fetch config)
     + error_count (check_updates_worker fetch config) = length config
   \<and> outdated_count (check_updates_worker fetch config)
       = length (filter (counted_outdated fetch) config)
   \<and> (distinct (map coordinate config) \<longrightarrow>
        length (outdated_repos (check_updates_worker fetch config))
          = length (filter (counted_outdated fetch) config))"
proof -
  have total: "update_count (check_updates_worker fetch config)
     + outdated_count (check_updates_worker fetch config)
     + error_count (check_updates_worker fetch config) = length config"
    by (simp add: check_updates_worker_def check_loop_sum)
  have outdated: "outdated_count (check_updates_worker fetch config)
       = length (filter (counted_outdated fetch) config)"
    by (simp add: check_updates_worker_def check_loop_outdated)
  have records: "distinct (map coordinate config) \<longrightarrow>
        length (outdated_repos (check_updates_worker fetch config))
          = length (filter (counted_outdated fetch) config)"
  proof
    assume dist: "distinct (map coordinate config)"
    let ?init = "\<lparr>outdated_repos = [], outdated_count = 0, update_count = 0, error_count = 0\<rparr>"
    have "map fst (outdated_repos (check_loop fetch 0 config ?init))
          = map fst (outdated_repos ?init) @ map coordinate (filter (counted_outdated fetch) config)"
      by (rule check_loop_keys [OF dist]) simp
    then have "length (map fst (outdated_repos (check_loop fetch 0 config ?init)))
          = length (map coordinate (filter (counted_outdated fetch) config))"
      by simp
    then show "length (outdated_repos (check_updates_worker fetch config))
          = length (filter (counted_outdated fetch) config)"
      by (simp add: check_updates_worker_def)
  qed
  show ?thesis
    by (rule conjI [OF total conjI [OF outdated records]])
qed

text \<open>
  A canonical annotation, as line 88 writes it, is parsed back to the identifier it embeds;
  an entry without annotation has no old identifier.
\<close>

lemma split_limit_zero: "py_split_sep sep (Some 0) cur s = [cur @ s]"
  by (induction s arbitrary: cur) simp_all

lemma split_colon_once:
  "CHR '':'' \<notin> set pre \<Longrightarrow>
   py_split_sep '':'' (Some 1) cur (pre @ CHR '':'' # rest) = [cur @ pre, rest]"
  by (induction pre arbitrary: cur) (simp_all add: split_limit_zero)

lemma split_space_at_head:
  "CHR '' '' \<notin> set s \<Longrightarrow>
   \<exists>ps. py_split_sep '' @'' None cur (s @ '' @'' @ t) = (cur @ s) # ps"
proof (induction s arbitrary: cur)
  case Nil
  then show ?case by simp
next
  case (Cons a s)
  then have a: "a \<noteq> CHR '' ''" and s: "CHR '' '' \<notin> set s"
    by auto
  obtain ps where "py_split_sep '' @'' None (cur @ [a]) (s @ '' @'' @ t) = ((cur @ [a]) @ s) # ps"
    using Cons.IH [OF s, of "cur @ [a]"] by blast
  moreover have "py_split_sep '' @'' None cur ((a # s) @ '' @'' @ t)
        = py_split_sep '' @'' None (cur @ [a]) (s @ '' @'' @ t)"
    using a by simp
  ultimately show ?case by simp
qed

lemma dropWhile_all_kept: "\<forall>c\<in>set xs. \<not> P c \<Longrightarrow> dropWhile P xs = xs"
  by (cases xs) simp_all

lemma dropWhile_keeps_suffix: "\<not> P y \<Longrightarrow> \<exists>u. dropWhile P (xs @ y # ys) = u @ y # ys"
proof (induction xs)
  case Nil
  then have "dropWhile P ([] @ y # ys) = [] @ y # ys" by simp
  then show ?case by blast
next
  case (Cons a xs)
  show ?case
  proof (cases "P a")
    case True
    with Cons show ?thesis by simp
  next
    case False
    then have "dropWhile P ((a # xs) @ y # ys) = (a # xs) @ y # ys" by simp
    then show ?thesis by blast
  qed
qed

lemma isspace_space [simp]: "isspace CHR '' ''"
  by (simp add: isspace_def)

lemma not_isspace_at [simp]: "\<not> isspace CHR ''@''"
  by (simp add: isspace_def)

lemma strip_no_space: "\<forall>c\<in>set s. \<not> isspace c \<Longrightarrow> strip s = s"
  by (simp add: strip_def dropWhile_all_kept)

lemma strip_sha_at:
  assumes "s \<noteq> []" and "\<forall>c\<in>set s. \<not> isspace c"
  shows "\<exists>t. strip (CHR '' '' # s @ '' @ '' @ d) = s @ '' @'' @ t"
proof -
  obtain c s' where s: "s = c # s'" using assms(1) by (cases s) auto
  have c: "\<not> isspace c" using assms(2) s by simp
  have 1: "dropWhile isspace (CHR '' '' # s @ '' @ '' @ d) = s @ '' @ '' @ d"
    using c by (simp add: s)
  have 2: "rev (s @ '' @ '' @ d) = (rev d @ '' '') @ CHR ''@'' # (CHR '' '' # rev s)"
    by simp
  obtain u where
    "dropWhile isspace ((rev d @ '' '') @ CHR ''@'' # (CHR '' '' # rev s))
       = u @ CHR ''@'' # (CHR '' '' # rev s)"
    using dropWhile_keeps_suffix [of isspace "CHR ''@''" "rev d @ '' ''" "CHR '' '' # rev s"]
      not_isspace_at by blast
  then have "dropWhile isspace (rev (s @ '' @ '' @ d)) = u @ CHR ''@'' # (CHR '' '' # rev s)"
    by (simp only: 2)
  then have "strip (CHR '' '' # s @ '' @ '' @ d) = rev (u @ CHR ''@'' # (CHR '' '' # rev s))"
    by (simp only: strip_def 1)
  then have "strip (CHR '' '' # s @ '' @ '' @ d) = s @ '' @'' @ rev u"
    by simp
  then show ?thesis by blast
qed

lemma extract_old_sha_render:
  assumes "CHR '':'' \<notin> set b" and "s \<noteq> []" and "\<forall>c\<in>set s. \<not> isspace c"
  shows "extract_old_sha (render_comment b s d) = Some s"
proof -
  have pre: "CHR '':'' \<notin> set (''Last commit on '' @ b)"
    using assms(1) by simp
  have r: "render_comment b s d = (''Last commit on '' @ b) @ CHR '':'' # (CHR '' '' # s @ '' @ '' @ d)"
    by (simp add: render_comment_def)
  have 1: "py_split_sep '':'' (Some (Suc 0)) [] (render_comment b s d)
           = [''Last commit on '' @ b, CHR '' '' # s @ '' @ '' @ d]"
    unfolding r using split_colon_once [OF pre, of "[]"] by simp
  obtain t where t: "strip (CHR '' '' # s @ '' @ '' @ d) = s @ '' @'' @ t"
    using strip_sha_at [OF assms(2,3)] by blast
  have nsp: "CHR '' '' \<notin> set s"
    using assms(3) isspace_space by blast
  obtain ps where ps: "py_split_sep '' @'' None [] (s @ '' @'' @ t) = s # ps"
    using split_space_at_head [OF nsp, of "[]" t] by auto
  have colon: "CHR '':'' \<in> set (render_comment b s d)"
    by (simp add: render_comment_def)
  have pp1: "py_nth (py_split_sep '':'' (Some 1) [] (render_comment b s d)) 1
             = Inr (CHR '' '' # s @ '' @ '' @ d)"
    by (simp add: py_nth_def 1)
  have pp2: "py_nth (py_split_sep '' @'' None [] (strip (CHR '' '' # s @ '' @ '' @ d))) 0 = Inr s"
    unfolding t ps by (simp add: py_nth_def)
  have "primary_parse (render_comment b s d) = Inr (Some (strip s))"
    unfolding primary_parse_def by (simp only: colon if_True pp1 pp2 sum.case)
  then show ?thesis
    by (simp add: extract_old_sha_def strip_no_space [OF assms(3)])
qed


lemma extract_old_sha_empty: "extract_old_sha [] = None"
  by (simp add: extract_old_sha_def primary_parse_def)

lemma extract_old_sha_entry_of:
  "canonical_item it \<Longrightarrow> extract_old_sha (get_comment (entry_of it)) = stored_sha it"
  by (cases "item_commit it")
     (auto simp: canonical_item_def entry_of_def get_comment_def stored_sha_def
        extract_old_sha_empty extract_old_sha_render)

lemma counted_outdated_entry_of:
  "canonical_item it \<Longrightarrow> counted_outdated fetch (entry_of it) = item_drifted fetch it"
proof -
  assume "canonical_item it"
  then have "extract_old_sha (get_comment (entry_of it)) = stored_sha it"
    by (rule extract_old_sha_entry_of)
  moreover have "coordinate (entry_of it) = item_coordinate it"
    by (simp add: entry_of_def)
  ultimately show ?thesis
    by (simp only: counted_outdated_def item_drifted_def)
qed

lemma filter_counted_outdated:
  "\<forall>it\<in>set items. canonical_item it \<Longrightarrow>
   length (filter (counted_outdated fetch) (map entry_of items))
   = length (filter (item_drifted fetch) items)"
  by (induction items) (simp_all add: counted_outdated_entry_of)

text \<open>
  C4, as the specification states it, fails when the store holds a coordinate twice: both
  items are genuinely drifted, and the pass leaves one drift record, since the records are
  keyed by coordinate.
\<close>

theorem duplicate_coordinates_one_record:
  "length (outdated_repos (check_updates_worker
      (\<lambda>_. Inr \<lparr>ci_sha = ''bbbb222'', ci_date = ''2024-02-02'', ci_message = ''m''\<rparr>)
      (map entry_of
        [\<lparr>item_coordinate = ''foo/bar'', item_commit = Some (''main'', ''aaaa111'', ''2024-01-01''),
          item_assets = []\<rparr>,
         \<lparr>item_coordinate = ''foo/bar'', item_commit = Some (''main'', ''cccc333'', ''2024-01-01''),
          item_assets = []\<rparr>]))) = 1
   \<and> length (filter (item_drifted
      (\<lambda>_. Inr \<lparr>ci_sha = ''bbbb222'', ci_date = ''2024-02-02'', ci_message = ''m''\<rparr>))
        [\<lparr>item_coordinate = ''foo/bar'', item_commit = Some (''main'', ''aaaa111'', ''2024-01-01''),
          item_assets = []\<rparr>,
         \<lparr>item_coordinate = ''foo/bar'', item_commit = Some (''main'', ''cccc333'', ''2024-01-01''),
          item_assets = []\<rparr>]) = 2"
proof -
  have e1: "extract_old_sha (render_comment ''main'' ''aaaa111'' ''2024-01-01'') = Some ''aaaa111''"
    by (rule extract_old_sha_render) (simp_all add: isspace_def)
  have e2: "extract_old_sha (render_comment ''main'' ''cccc333'' ''2024-01-01'') = Some ''cccc333''"
    by (rule extract_old_sha_render) (simp_all add: isspace_def)
  show ?thesis
    by (simp add: check_updates_worker_def check_entry_def entry_of_def get_comment_def e1 e2
          sha_changed_def truthy_def lower_def lower_char_def item_drifted_def stored_sha_def
          is_same_commit_def)
qed

text \<open>
  C4, amended. For every collection of \<open>N\<close> tracked items in the canonical format, of which
  \<open>K\<close> are genuinely drifted, one pass counts each item once, so the three counters add up
  to \<open>N\<close>, and \<open>outdated_count\<close> is \<open>K\<close>; when the coordinates are pairwise distinct, the
  pass leaves exactly \<open>K\<close> drift records.
\<close>

theorem reconciliation_counts:
  assumes "\<forall>it\<in>set items. canonical_item it"
  shows "update_count (check_updates_worker fetch (map entry_of items))
           + outdated_count (check_updates_worker fetch (map entry_of items))
           + error_count (check_updates_worker fetch (map entry_of items)) = length items
         \<and> outdated_count (check_updates_worker fetch (map entry_of items))
             = length (filter (item_drifted fetch) items)
         \<and> (distinct (map item_coordinate items) \<longrightarrow>
              length (outdated_repos (check_updates_worker fetch (map entry_of items)))
                = length (filter (item_drifted fetch) items))"
proof -
  have coords: "map coordinate (map entry_of items) = map item_coordinate items"
    by (simp add: entry_of_def)
  note K = filter_counted_outdated [OF assms, of fetch]
  from check_updates_totals [of fetch "map entry_of items"]
  show ?thesis
    unfolding K coords by simp
qed

theorem reconciliation_counts_witness:
  "length (outdated_repos (check_updates_worker
      (\<lambda>_. Inr \<lparr>ci_sha = ''bbbb222'', ci_date = ''2024-02-02'', ci_message = ''m''\<rparr>)
      (map entry_of
        [\<lparr>item_coordinate = ''foo/bar'', item_commit = Some (''main'', ''aaaa111'', ''2024-01-01''),
          item_assets = []\<rparr>,
         \<lparr>item_coordinate = ''baz/qux'', item_commit = None, item_assets = []\<rparr>])))
   = length (filter (item_drifted
      (\<lambda>_. Inr \<lparr>ci_sha = ''bbbb222'', ci_date = ''2024-02-02'', ci_message = ''m''\<rparr>))
        [\<lparr>item_coordinate = ''foo/bar'', item_commit = Some (''main'', ''aaaa111'', ''2024-01-01''),
          item_assets = []\<rparr>,
         \<lparr>item_coordinate = ''baz/qux'', item_commit = None, item_assets = []\<rparr>])
   \<and> outdated_count (check_updates_worker
      (\<lambda>_. Inr \<lparr>ci_sha = ''bbbb222'', ci_date = ''2024-02-02'', ci_message = ''m''\<rparr>)
      (map entry_of
        [\<lparr>item_coordinate = ''foo/bar'', item_commit = Some (''main'', ''aaaa111'', ''2024-01-01''),
          item_assets = []\<rparr>,
         \<lparr>item_coordinate = ''baz/qux'', item_commit = None, item_assets = []\<rparr>]))
   = length (filter (item_drifted
      (\<lambda>_. Inr \<lparr>ci_sha = ''bbbb222'', ci_date = ''2024-02-02'', ci_message = ''m''\<rparr>))
        [\<lparr>item_coordinate = ''foo/bar'', item_commit = Some (''main'', ''aaaa111'', ''2024-01-01''),
          item_assets = []\<rparr>,
         \<lparr>item_coordinate = ''baz/qux'', item_commit = None, item_assets = []\<rparr>])"
proof -
  have c: "\<forall>it\<in>set
        [\<lparr>item_coordinate = ''foo/bar'', item_commit = Some (''main'', ''aaaa111'', ''2024-01-01''),
          item_assets = []\<rparr>,
         \<lparr>item_coordinate = ''baz/qux'', item_commit = None, item_assets = []\<rparr>]. canonical_item it"
    by (simp add: canonical_item_def isspace_def)
  have d: "distinct (map item_coordinate
        [\<lparr>item_coordinate = ''foo/bar'', item_commit = Some (''main'', ''aaaa111'', ''2024-01-01''),
          item_assets = []\<rparr>,
         \<lparr>item_coordinate = ''baz/qux'', item_commit = None, item_assets = []\<rparr>])"
    by simp
  from d reconciliation_counts [OF c, of "\<lambda>_. Inr \<lparr>ci_sha = ''bbbb222'', ci_date = ''2024-02-02'', ci_message = ''m''\<rparr>"]
  show ?thesis by blast
qed

text \<open>
  C5. The extractor of \<^verbatim>\<open>_update_repo_worker\<close> (line 574) indexes the fourth token with no
  check of the length: on the annotation \<^verbatim>\<open>abc\<close> it raises \<^verbatim>\<open>IndexError\<close>, and on a canonical
  annotation it returns the branch with its colon, not the identifier. The extractor of
  \<^verbatim>\<open>_check_updates_worker\<close> on the same inputs returns \<^verbatim>\<open>None\<close> and the identifier.
\<close>

theorem update_worker_old_sha_raises:
  "update_worker_old_sha ''abc'' = Inl IndexError
   \<and> update_worker_old_sha ''Last commit on main: aaaa111 @ 2024-01-01'' = Inr (Some ''main:'')
   \<and> extract_old_sha ''abc'' = None
   \<and> fallback_parse ''abc'' = None
   \<and> extract_old_sha ''Last commit on main: aaaa111 @ 2024-01-01'' = Some ''aaaa111''"
  by (simp add: update_worker_old_sha_def py_split_def py_nth_def isspace_def
        extract_old_sha_def primary_parse_def fallback_parse_def strip_def)

section \<open>Adding an entry\<close>

text \<open>
  C10. Adding a coordinate removes every entry with that coordinate and appends the new
  entry: afterwards exactly one entry has the coordinate, it is the last one, and the other
  entries are the old ones without the coordinate, in their old order. An entry that was
  tracked at another position is therefore moved to the end, not updated in place.
\<close>

theorem add_entry_unique_last:
  "length (filter (\<lambda>e. coordinate e = r) (add_entry config r c h)) = 1
   \<and> last (add_entry config r c h) = \<lparr>coordinate = r, comment = Some c, assets = h\<rparr>
   \<and> butlast (add_entry config r c h) = filter (\<lambda>e. coordinate e \<noteq> r) config
   \<and> submit_add config (Some r) (\<lambda>_. Inr (h, c)) = Inr (add_entry config r c h)"
proof -
  have "filter (\<lambda>e. coordinate e = r) (filter (\<lambda>e. coordinate e \<noteq> r) config) = []"
    by (induction config) auto
  then show ?thesis
    by (simp add: add_entry_def submit_add_def)
qed

end
